theory Spec2Isabelle
  imports Complex_Main "HOL-Library.Word" "HOL-Library.AList"
begin

unbundle bit_operations_syntax

section \<open>Framing codec (core/protocol.py)\<close>

subsection \<open>Bytes, Python exceptions, struct and zlib\<close>

type_synonym byte = "8 word"

text \<open>The exception classes that the modelled code raises or catches.\<close>

datatype py_error = StructError | ValueError | IndexError | SerialException | OtherError

text \<open>
  \<^verbatim>\<open>struct.pack\<close> in standard mode (\<^verbatim>\<open>'!'\<close>) raises \<^verbatim>\<open>struct.error\<close> when an
  argument is outside the range of its field; otherwise it writes the field big-endian.
\<close>

definition pack_B :: "int \<Rightarrow> py_error + byte list" where
  "pack_B x = (if 0 \<le> x \<and> x < 256 then Inr [word_of_int x] else Inl StructError)"

definition pack_H :: "int \<Rightarrow> py_error + byte list" where
  "pack_H x =
     (if 0 \<le> x \<and> x < 65536 then Inr [word_of_int (x div 256), word_of_int x]
      else Inl StructError)"

definition pack_I :: "int \<Rightarrow> py_error + byte list" where
  "pack_I x =
     (if 0 \<le> x \<and> x < 4294967296
      then Inr [word_of_int (x div 16777216), word_of_int (x div 65536),
                word_of_int (x div 256), word_of_int x]
      else Inl StructError)"

text \<open>\<^verbatim>\<open>struct.pack('!BBHI', a, b, c, d)\<close>: the fields are checked left to right.\<close>

definition pack_BBHI :: "int \<Rightarrow> int \<Rightarrow> int \<Rightarrow> int \<Rightarrow> py_error + byte list" where
  "pack_BBHI a b c d =
     (case pack_B a of
        Inl e \<Rightarrow> Inl e
      | Inr xa \<Rightarrow>
         (case pack_B b of
            Inl e \<Rightarrow> Inl e
          | Inr xb \<Rightarrow>
             (case pack_H c of
                Inl e \<Rightarrow> Inl e
              | Inr xc \<Rightarrow>
                 (case pack_I d of
                    Inl e \<Rightarrow> Inl e
                  | Inr xd \<Rightarrow> Inr (xa @ xb @ xc @ xd)))))"

text \<open>Big-endian value of a byte string.\<close>

definition be_int :: "byte list \<Rightarrow> int" where
  "be_int bs = foldl (\<lambda>a b. a * 256 + uint b) 0 bs"

text \<open>
  \<^verbatim>\<open>struct.unpack\<close> raises \<^verbatim>\<open>struct.error\<close> unless the buffer has exactly the size
  of the format.
\<close>

definition unpack_I :: "byte list \<Rightarrow> py_error + int" where
  "unpack_I bs = (if length bs = 4 then Inr (be_int bs) else Inl StructError)"

definition unpack_BBHI :: "byte list \<Rightarrow> py_error + (int \<times> int \<times> int \<times> int)" where
  "unpack_BBHI bs =
     (if length bs = 8
      then Inr (be_int (take 1 bs), be_int (take 1 (drop 1 bs)),
                be_int (take 2 (drop 2 bs)), be_int (drop 4 bs))
      else Inl StructError)"

text \<open>
  A Python slice \<^verbatim>\<open>xs[a:b]\<close> with \<open>0 \<le> a\<close> and \<open>0 \<le> b\<close>: it never raises, and is
  shorter than \<open>b - a\<close> when the sequence ends early.
\<close>

definition slice :: "'a list \<Rightarrow> nat \<Rightarrow> nat \<Rightarrow> 'a list" where
  "slice xs a b = take (b - a) (drop a xs)"

text \<open>
  \<^verbatim>\<open>zlib.crc32\<close>: the CRC-32 of IEEE 802.3 in its reflected form (polynomial
  \<open>0xEDB88320\<close>, initial value and final complement \<open>0xFFFFFFFF\<close>), one bit at a time.
\<close>

definition crc32_step :: "32 word \<Rightarrow> 32 word" where
  "crc32_step c = (if bit c 0 then drop_bit 1 c XOR 0xEDB88320 else drop_bit 1 c)"

definition crc32_byte :: "32 word \<Rightarrow> byte \<Rightarrow> 32 word" where
  "crc32_byte c b = (crc32_step ^^ 8) (c XOR ucast b)"

definition crc32_update :: "32 word \<Rightarrow> byte list \<Rightarrow> 32 word" where
  "crc32_update c bs = foldl crc32_byte c bs"

definition crc32 :: "byte list \<Rightarrow> int" where
  "crc32 bs = uint (crc32_update 0xFFFFFFFF bs XOR 0xFFFFFFFF)"

subsection \<open>Packets\<close>

datatype PacketType = DATA | ACK | HEARTBEAT

fun PacketType_value :: "PacketType \<Rightarrow> int" where
  "PacketType_value DATA = 1"
| "PacketType_value ACK = 2"
| "PacketType_value HEARTBEAT = 3"

text \<open>\<^verbatim>\<open>PacketType(v)\<close> raises \<^verbatim>\<open>ValueError\<close> for a value that names no member.\<close>

definition PacketType_of :: "int \<Rightarrow> py_error + PacketType" where
  "PacketType_of v =
     (if v = 1 then Inr DATA else if v = 2 then Inr ACK
      else if v = 3 then Inr HEARTBEAT else Inl ValueError)"

text \<open>
  The timestamp is a Python float holding seconds; it is modelled by the real number
  it denotes, and arithmetic on it is exact.
\<close>

record Packet =
  packet_type :: PacketType
  sequence_id :: int
  timestamp :: real
  payload :: "byte list"

definition payload_size :: "Packet \<Rightarrow> int" where
  "payload_size p = int (length (payload p))"

record ProtocolHandler =
  sequence_counter :: int

definition HEADER_FORMAT_SIZE :: nat where
  "HEADER_FORMAT_SIZE = 8"

definition HEADER_SIZE :: nat where
  "HEADER_SIZE = HEADER_FORMAT_SIZE + 4"

definition FOOTER_SIZE :: nat where
  "FOOTER_SIZE = 4"

definition MAGIC_BYTE :: int where
  "MAGIC_BYTE = 0xAA"

text \<open>Python's \<^verbatim>\<open>int(x)\<close> on a float truncates towards zero.\<close>

definition py_int :: "real \<Rightarrow> int" where
  "py_int x = (if 0 \<le> x then \<lfloor>x\<rfloor> else \<lceil>x\<rceil>)"

text \<open>
  \<^verbatim>\<open>create_packet\<close> stamps the packet with the clock's reading \<open>now\<close> (the value of
  \<^verbatim>\<open>time.time()\<close>) and the handler's counter, which it then increments.
\<close>

definition create_packet ::
  "ProtocolHandler \<Rightarrow> real \<Rightarrow> PacketType \<Rightarrow> byte list \<Rightarrow> Packet \<times> ProtocolHandler" where
  "create_packet h now ty pl =
     (\<lparr>packet_type = ty, sequence_id = sequence_counter h, timestamp = now, payload = pl\<rparr>,
      h\<lparr>sequence_counter := sequence_counter h + 1\<rparr>)"

definition serialize_packet :: "Packet \<Rightarrow> py_error + byte list" where
  "serialize_packet packet =
     (case pack_BBHI MAGIC_BYTE (PacketType_value (packet_type packet)) (sequence_id packet)
             (py_int (timestamp packet * 1000)) of
        Inl e \<Rightarrow> Inl e
      | Inr header \<Rightarrow>
         (case pack_I (payload_size packet) of
            Inl e \<Rightarrow> Inl e
          | Inr psize \<Rightarrow>
             (let data = header @ psize @ payload packet in
              case pack_I (crc32 data) of
                Inl e \<Rightarrow> Inl e
              | Inr cs \<Rightarrow> Inr (data @ cs))))"

text \<open>The body of the \<^verbatim>\<open>try\<close> block of \<^verbatim>\<open>deserialize_packet\<close>.\<close>

definition deserialize_try :: "byte list \<Rightarrow> py_error + Packet option" where
  "deserialize_try data =
     (case unpack_BBHI (take HEADER_FORMAT_SIZE data) of
        Inl e \<Rightarrow> Inl e
      | Inr (magic, ptype, seq_id, timestamp_ms) \<Rightarrow>
         if magic \<noteq> MAGIC_BYTE then Inr None
         else
           (case unpack_I (slice data HEADER_FORMAT_SIZE HEADER_SIZE) of
              Inl e \<Rightarrow> Inl e
            | Inr psize \<Rightarrow>
               (let payload_start = HEADER_SIZE;
                    payload_end = payload_start + nat psize
                in if length data < payload_end + FOOTER_SIZE then Inr None
                   else
                     (let pl = slice data payload_start payload_end;
                          checksum_data = take payload_end data
                      in case unpack_I (slice data payload_end (payload_end + FOOTER_SIZE)) of
                           Inl e \<Rightarrow> Inl e
                         | Inr expected_checksum \<Rightarrow>
                            if expected_checksum \<noteq> crc32 checksum_data then Inr None
                            else
                              (case PacketType_of ptype of
                                 Inl e \<Rightarrow> Inl e
                               | Inr ty \<Rightarrow>
                                  Inr (Some \<lparr>packet_type = ty, sequence_id = seq_id,
                                             timestamp = real_of_int timestamp_ms / 1000,
                                             payload = pl\<rparr>))))))"

text \<open>
  \<^verbatim>\<open>deserialize_packet\<close>: the length guard, then the \<^verbatim>\<open>try\<close> block, whose
  \<^verbatim>\<open>except (struct.error, ValueError)\<close> clause turns these two exceptions into
  \<^verbatim>\<open>None\<close>; any other exception would propagate.
\<close>

definition deserialize_packet :: "byte list \<Rightarrow> py_error + Packet option" where
  "deserialize_packet data =
     (if length data < HEADER_SIZE + FOOTER_SIZE then Inr None
      else
        (case deserialize_try data of
           Inl StructError \<Rightarrow> Inr None
         | Inl ValueError \<Rightarrow> Inr None
         | Inl e \<Rightarrow> Inl e
         | Inr r \<Rightarrow> Inr r))"

text \<open>
  The method reads only class constants: the handler it is called on comes back as it
  was, whatever the result.
\<close>

definition deserialize_packet_on ::
  "ProtocolHandler \<Rightarrow> byte list \<Rightarrow> (py_error + Packet option) \<times> ProtocolHandler" where
  "deserialize_packet_on h data = (deserialize_packet data, h)"

definition create_data_packet ::
  "ProtocolHandler \<Rightarrow> real \<Rightarrow> byte list \<Rightarrow> Packet \<times> ProtocolHandler" where
  "create_data_packet h now d = create_packet h now DATA d"

text \<open>
  \<^verbatim>\<open>create_ack_packet\<close> packs the acknowledged sequence id first, so it raises
  \<^verbatim>\<open>struct.error\<close>, leaving the counter alone, when the id does not fit 32 bits.
\<close>

definition create_ack_packet ::
  "ProtocolHandler \<Rightarrow> real \<Rightarrow> int \<Rightarrow> py_error + (Packet \<times> ProtocolHandler)" where
  "create_ack_packet h now seq =
     (case pack_I seq of
        Inl e \<Rightarrow> Inl e
      | Inr ack_payload \<Rightarrow> Inr (create_packet h now ACK ack_payload))"

definition create_heartbeat_packet ::
  "ProtocolHandler \<Rightarrow> real \<Rightarrow> Packet \<times> ProtocolHandler" where
  "create_heartbeat_packet h now = create_packet h now HEARTBEAT []"

definition get_acked_sequence :: "Packet \<Rightarrow> int option" where
  "get_acked_sequence ack_packet =
     (if packet_type ack_packet \<noteq> ACK \<or> length (payload ack_packet) < 4 then None
      else
        (case unpack_I (take 4 (payload ack_packet)) of
           Inl e \<Rightarrow> None
         | Inr v \<Rightarrow> Some v))"

section \<open>Serial handler (core/serial\_handler.py)\<close>

text \<open>
  \<open>has_connection\<close> says that \<^verbatim>\<open>serial_connection\<close> is not \<^verbatim>\<open>None\<close>. The
  counters are the handler's own statistics.
\<close>

record SerialHandler =
  protocol :: ProtocolHandler
  is_connected :: bool
  has_connection :: bool
  bytes_sent :: int
  bytes_received :: int
  sh_packets_sent :: int
  sh_packets_received :: int

text \<open>
  \<^verbatim>\<open>send_packet\<close>. The serial port is outside the program: \<open>port\<close> gives, for the
  bytes handed to it, what \<^verbatim>\<open>write\<close> followed by \<^verbatim>\<open>flush\<close> does, either the count
  of bytes written or the exception raised. The \<^verbatim>\<open>try\<close> block has one handler, for
  \<^verbatim>\<open>serial.SerialException\<close>; every other exception leaves the method.
\<close>

definition send_try ::
  "SerialHandler \<Rightarrow> (byte list \<Rightarrow> py_error + int) \<Rightarrow> Packet \<Rightarrow> (py_error + bool) \<times> SerialHandler" where
  "send_try sh port packet =
     (case serialize_packet packet of
        Inl e \<Rightarrow> (Inl e, sh)
      | Inr data \<Rightarrow>
         (case port data of
            Inl e \<Rightarrow> (Inl e, sh)
          | Inr bytes_written \<Rightarrow>
             (Inr True, sh\<lparr>bytes_sent := bytes_sent sh + bytes_written,
                            sh_packets_sent := sh_packets_sent sh + 1\<rparr>)))"

definition send_packet ::
  "SerialHandler \<Rightarrow> (byte list \<Rightarrow> py_error + int) \<Rightarrow> Packet \<Rightarrow> (py_error + bool) \<times> SerialHandler" where
  "send_packet sh port packet =
     (if \<not> is_connected sh \<or> \<not> has_connection sh then (Inr False, sh)
      else
        (case send_try sh port packet of
           (Inl SerialException, sh') \<Rightarrow> (Inr False, sh')
         | r \<Rightarrow> r))"

text \<open>\<^verbatim>\<open>bytearray.find(b)\<close>: the index of the first occurrence, or \<open>-1\<close>.\<close>

definition bytes_find :: "byte list \<Rightarrow> byte \<Rightarrow> int" where
  "bytes_find xs b =
     (if b \<in> set xs then int (length (takeWhile (\<lambda>x. x \<noteq> b) xs)) else - 1)"

text \<open>
  \<^verbatim>\<open>_parse_buffer\<close>: the \<^verbatim>\<open>while\<close> loop as a recursion on the buffer. The result is
  the packets emitted through \<^verbatim>\<open>packet_received\<close>, in order, the buffer as the loop
  leaves it, and the exception that left the method, if any. The \<^verbatim>\<open>except\<close> clause
  catches \<^verbatim>\<open>struct.error\<close> and \<^verbatim>\<open>IndexError\<close>, drops one byte and goes round again.
\<close>

function parse_buffer :: "byte list \<Rightarrow> Packet list \<times> byte list \<times> py_error option" where
  "parse_buffer buffer =
     (if HEADER_SIZE + FOOTER_SIZE \<le> length buffer then
        (let magic_index = bytes_find buffer (word_of_int MAGIC_BYTE) in
         if magic_index = - 1 then ([], [], None)
         else
           (let buffer1 = (if 0 < magic_index then drop (nat magic_index) buffer else buffer) in
            if length buffer1 < HEADER_SIZE then ([], buffer1, None)
            else
              (case unpack_I (slice buffer1 HEADER_FORMAT_SIZE HEADER_SIZE) of
                 Inl e \<Rightarrow>
                  (if e = StructError \<or> e = IndexError then parse_buffer (drop 1 buffer1)
                   else ([], buffer1, Some e))
               | Inr psize \<Rightarrow>
                  (let total_packet_size = HEADER_SIZE + nat psize + FOOTER_SIZE in
                   if length buffer1 < total_packet_size then ([], buffer1, None)
                   else
                     (case deserialize_packet (take total_packet_size buffer1) of
                        Inl e \<Rightarrow>
                         (if e = StructError \<or> e = IndexError then parse_buffer (drop 1 buffer1)
                          else ([], buffer1, Some e))
                      | Inr None \<Rightarrow> parse_buffer (drop 1 buffer1)
                      | Inr (Some packet) \<Rightarrow>
                         (case parse_buffer (drop total_packet_size buffer1) of
                            (ps, b, err) \<Rightarrow> (packet # ps, b, err)))))))
      else ([], buffer, None))"
  by pat_completeness auto
termination
proof (relation "measure length")
  show "wf (measure length)" by simp
qed (auto simp: HEADER_SIZE_def HEADER_FORMAT_SIZE_def FOOTER_SIZE_def split: if_splits)

text \<open>
  One round of \<^verbatim>\<open>_receive_loop\<close> in which the port has \<open>data\<close> waiting: the data is
  appended to the buffer, counted, and the buffer parsed. With nothing waiting the round
  does nothing.
\<close>

definition receive_data ::
  "SerialHandler \<Rightarrow> byte list \<Rightarrow> byte list \<Rightarrow>
     SerialHandler \<times> byte list \<times> Packet list \<times> py_error option" where
  "receive_data sh buffer data =
     (if 0 < length data then
        (case parse_buffer (buffer @ data) of
           (ps, b, err) \<Rightarrow>
            (sh\<lparr>bytes_received := bytes_received sh + int (length data),
                sh_packets_received := sh_packets_received sh + int (length ps)\<rparr>,
             b, ps, err))
      else (sh, buffer, [], None))"

text \<open>
  The receive loop over the successive reads \<open>chunks\<close>, from a given buffer: the packets
  emitted so far are collected in order; an exception ends the loop.
\<close>

fun receive_loop ::
  "SerialHandler \<Rightarrow> byte list \<Rightarrow> byte list list \<Rightarrow>
     SerialHandler \<times> byte list \<times> Packet list \<times> py_error option" where
  "receive_loop sh buffer [] = (sh, buffer, [], None)"
| "receive_loop sh buffer (data # chunks) =
     (case receive_data sh buffer data of
        (sh', b, ps, Some e) \<Rightarrow> (sh', b, ps, Some e)
      | (sh', b, ps, None) \<Rightarrow>
         (case receive_loop sh' b chunks of
            (sh'', b', ps', err) \<Rightarrow> (sh'', b', ps @ ps', err)))"

section \<open>Test engine (core/test\_engine.py)\<close>

datatype TestMode = TRANSMITTER | RECEIVER

fun TestMode_value :: "TestMode \<Rightarrow> string" where
  "TestMode_value TRANSMITTER = ''transmitter''"
| "TestMode_value RECEIVER = ''receiver''"

record TestMetrics =
  start_time :: real
  end_time :: real
  packets_sent :: int
  packets_received :: int
  packets_lost :: int
  bytes_transmitted :: int
  latency_samples :: "real list"
  bandwidth_samples :: "real list"
  errors :: "string list"

definition new_metrics :: TestMetrics where
  "new_metrics =
     \<lparr>start_time = 0, end_time = 0, packets_sent = 0, packets_received = 0,
      packets_lost = 0, bytes_transmitted = 0, latency_samples = [],
      bandwidth_samples = [], errors = []\<rparr>"

text \<open>The Qt signals the engine emits, kept in the order of emission.\<close>

datatype signal = TestStarted | TestStopped | TestPaused | TestResumed | StatusMessage string

text \<open>
  \<open>pending_acks\<close> is a Python dict, which keeps its keys in insertion order: an
  association list with distinct keys. \<open>test_thread\<close> says that a test thread has been
  started.
\<close>

record TestEngine =
  serial_handler :: SerialHandler
  mode :: TestMode
  packet_size :: int
  transmission_rate :: int
  test_duration :: int
  heartbeat_interval :: int
  is_running :: bool
  is_paused :: bool
  stop_event :: bool
  pause_event :: bool
  test_thread :: bool
  metrics :: TestMetrics
  pending_acks :: "(int \<times> real) list"
  expected_sequences :: "int list"
  received_sequences :: "int set"
  last_sequence :: int
  emitted :: "signal list"

text \<open>Python's \<^verbatim>\<open>str\<close> of an integer, as the f-strings of the error log use it.\<close>

definition digit_char :: "nat \<Rightarrow> char" where
  "digit_char d = char_of (48 + d)"

function str_nat :: "nat \<Rightarrow> string" where
  "str_nat n = (if n < 10 then [digit_char n] else str_nat (n div 10) @ [digit_char (n mod 10)])"
  by pat_completeness auto
termination
  by (relation "measure id") auto

declare str_nat.simps [simp del]

definition str_int :: "int \<Rightarrow> string" where
  "str_int i = (if i < 0 then CHR ''-'' # str_nat (nat (- i)) else str_nat (nat i))"

definition configure_test ::
  "TestEngine \<Rightarrow> TestMode \<Rightarrow> int \<Rightarrow> int \<Rightarrow> int \<Rightarrow> bool \<times> TestEngine" where
  "configure_test e m psize rate duration =
     (if is_running e then (False, e)
      else (True, e\<lparr>mode := m, packet_size := psize, transmission_rate := rate,
                     test_duration := duration\<rparr>))"

definition reset_metrics :: "TestEngine \<Rightarrow> TestEngine" where
  "reset_metrics e =
     e\<lparr>metrics := new_metrics, pending_acks := [], expected_sequences := [],
       received_sequences := {}, last_sequence := - 1\<rparr>"

text \<open>
  \<^verbatim>\<open>start_test\<close> up to the start of the test thread, which runs the test loop on
  its own.
\<close>

definition start_test :: "TestEngine \<Rightarrow> bool \<times> TestEngine" where
  "start_test e =
     (if is_running e \<or> \<not> is_connected (serial_handler e) then (False, e)
      else
        (let e1 = reset_metrics e;
             e2 = e1\<lparr>is_running := True, is_paused := False, stop_event := False,
                     pause_event := False, test_thread := True\<rparr>
         in (True,
             e2\<lparr>emitted := emitted e2 @
                   [TestStarted,
                    StatusMessage (''Test started in '' @ TestMode_value (mode e2) @ '' mode'')]\<rparr>)))"

definition pause_test :: "TestEngine \<Rightarrow> TestEngine" where
  "pause_test e =
     (if \<not> is_running e \<or> is_paused e then e
      else e\<lparr>is_paused := True, pause_event := True,
              emitted := emitted e @ [TestPaused, StatusMessage ''Test paused'']\<rparr>)"

definition resume_test :: "TestEngine \<Rightarrow> TestEngine" where
  "resume_test e =
     (if \<not> is_running e \<or> \<not> is_paused e then e
      else e\<lparr>is_paused := False, pause_event := False,
              emitted := emitted e @ [TestResumed, StatusMessage ''Test resumed'']\<rparr>)"

text \<open>
  \<^verbatim>\<open>_handle_data_packet_receiver\<close>. \<open>current_time\<close> is the argument of that name,
  \<open>now\<close> the clock's reading when the acknowledgement is created, \<open>port\<close> the serial
  port as in \<open>send_packet\<close>. The counters and the tracker are updated before the
  acknowledgement is sent, so they keep their new values when sending raises; the
  exception, if any, is the first component of the result.
\<close>

definition missing_message :: "int \<Rightarrow> string" where
  "missing_message seq = ''Missing packet: seq='' @ str_int seq"

definition missing_errors :: "int \<Rightarrow> int \<Rightarrow> string list" where
  "missing_errors last_seq seq = map missing_message [last_seq + 1..seq - 1]"

definition track_sequence :: "TestEngine \<Rightarrow> Packet \<Rightarrow> TestEngine" where
  "track_sequence e packet =
     (let m1 = (metrics e)\<lparr>packets_received := packets_received (metrics e) + 1,
                             bytes_transmitted := bytes_transmitted (metrics e)
                               + int (length (payload packet))\<rparr>;
          e1 = e\<lparr>metrics := m1,
                 received_sequences := insert (sequence_id packet) (received_sequences e)\<rparr>;
          e2 = (if sequence_id packet > last_sequence e1 + 1 then
                  (let lost_count = sequence_id packet - last_sequence e1 - 1 in
                   e1\<lparr>metrics := (metrics e1)
                        \<lparr>packets_lost := packets_lost (metrics e1) + lost_count,
                         errors := errors (metrics e1)
                           @ missing_errors (last_sequence e1) (sequence_id packet)\<rparr>\<rparr>)
                else e1)
      in e2\<lparr>last_sequence := max (last_sequence e2) (sequence_id packet)\<rparr>)"

definition record_latency :: "TestEngine \<Rightarrow> Packet \<Rightarrow> real \<Rightarrow> TestEngine" where
  "record_latency e packet current_time =
     (let latency = current_time - timestamp packet in
      if 0 < latency then
        e\<lparr>metrics := (metrics e)\<lparr>latency_samples := latency_samples (metrics e) @ [latency]\<rparr>\<rparr>
      else e)"

definition handle_data_packet_receiver ::
  "TestEngine \<Rightarrow> Packet \<Rightarrow> real \<Rightarrow> real \<Rightarrow> (byte list \<Rightarrow> py_error + int) \<Rightarrow>
     py_error option \<times> TestEngine" where
  "handle_data_packet_receiver e packet current_time now port =
     (let e3 = track_sequence e packet in
      case create_ack_packet (protocol (serial_handler e3)) now (sequence_id packet) of
        Inl err \<Rightarrow> (Some err, e3)
      | Inr (ack_packet, ph) \<Rightarrow>
         (case send_packet ((serial_handler e3)\<lparr>protocol := ph\<rparr>) port ack_packet of
            (Inl err, sh) \<Rightarrow> (Some err, e3\<lparr>serial_handler := sh\<rparr>)
          | (Inr sent, sh) \<Rightarrow>
             (None, record_latency (e3\<lparr>serial_handler := sh\<rparr>) packet current_time)))"

text \<open>\<^verbatim>\<open>_handle_ack_packet_transmitter\<close>.\<close>

definition handle_ack_packet_transmitter :: "TestEngine \<Rightarrow> Packet \<Rightarrow> real \<Rightarrow> TestEngine" where
  "handle_ack_packet_transmitter e packet current_time =
     (case get_acked_sequence packet of
        None \<Rightarrow> e
      | Some acked_seq \<Rightarrow>
         (case map_of (pending_acks e) acked_seq of
            None \<Rightarrow> e
          | Some send_time \<Rightarrow>
             e\<lparr>metrics := (metrics e)
                  \<lparr>latency_samples := latency_samples (metrics e) @ [current_time - send_time],
                   packets_received := packets_received (metrics e) + 1\<rparr>,
               pending_acks := AList.delete acked_seq (pending_acks e)\<rparr>))"

text \<open>
  \<^verbatim>\<open>_handle_received_packet\<close>: the dispatch on the packet type and the mode.
  \<open>now\<close> is the clock's reading that becomes \<^verbatim>\<open>current_time\<close>, \<open>now'\<close> the later
  reading that stamps an acknowledgement.
\<close>

definition handle_received_packet ::
  "TestEngine \<Rightarrow> Packet \<Rightarrow> real \<Rightarrow> real \<Rightarrow> (byte list \<Rightarrow> py_error + int) \<Rightarrow>
     py_error option \<times> TestEngine" where
  "handle_received_packet e packet now now' port =
     (if \<not> is_running e then (None, e)
      else
        (case packet_type packet of
           DATA \<Rightarrow>
            (if mode e = TRANSMITTER then
               (None, e\<lparr>metrics := (metrics e)\<lparr>errors := errors (metrics e) @
                  [''Unexpected DATA packet: seq='' @ str_int (sequence_id packet)]\<rparr>\<rparr>)
             else handle_data_packet_receiver e packet now now' port)
         | ACK \<Rightarrow>
            (if mode e = TRANSMITTER then (None, handle_ack_packet_transmitter e packet now)
             else
               (None, e\<lparr>metrics := (metrics e)\<lparr>errors := errors (metrics e) @
                  [''Unexpected ACK packet: seq='' @ str_int (sequence_id packet)]\<rparr>\<rparr>))
         | HEARTBEAT \<Rightarrow> (None, e)))"

text \<open>
  \<^verbatim>\<open>_check_ack_timeouts\<close>: the first loop collects the keys whose entry is older than
  \<open>timeout\<close>, in the order of the dict; the second deletes each of them, counts it as
  lost and logs it. The keys collected are keys of the dict, so no deletion fails.
\<close>

definition timed_out_ids :: "(int \<times> real) list \<Rightarrow> real \<Rightarrow> real \<Rightarrow> int list" where
  "timed_out_ids pending current_time timeout =
     map fst (filter (\<lambda>(seq_id, send_time). current_time - send_time > timeout) pending)"

definition timeout_message :: "int \<Rightarrow> string" where
  "timeout_message seq_id = ''ACK timeout: seq='' @ str_int seq_id"

definition mark_lost :: "TestEngine \<Rightarrow> int \<Rightarrow> TestEngine" where
  "mark_lost e seq_id =
     e\<lparr>pending_acks := AList.delete seq_id (pending_acks e),
       metrics := (metrics e)
         \<lparr>packets_lost := packets_lost (metrics e) + 1,
          errors := errors (metrics e) @ [timeout_message seq_id]\<rparr>\<rparr>"

definition check_ack_timeouts :: "TestEngine \<Rightarrow> real \<Rightarrow> real \<Rightarrow> TestEngine" where
  "check_ack_timeouts e current_time timeout =
     foldl mark_lost e (timed_out_ids (pending_acks e) current_time timeout)"

text \<open>The default of the parameter \<^verbatim>\<open>timeout\<close>, which the transmitter loop leaves as it is.\<close>

definition DEFAULT_ACK_TIMEOUT :: real where
  "DEFAULT_ACK_TIMEOUT = 5"

text \<open>
  The block of \<^verbatim>\<open>_transmitter_loop\<close> that sends one data packet: \<open>current_time\<close> is the
  loop's reading of the clock, \<open>now\<close> the reading that stamps the packet. The payload is
  \<^verbatim>\<open>b'X' * packet_size\<close>, empty for a size below 1. The packet is entered into
  \<open>pending_acks\<close> when \<^verbatim>\<open>send_packet\<close> returns \<^verbatim>\<open>True\<close>; a dict assignment replaces the
  value of a key it holds and puts a new key last.
\<close>

definition send_data_packet ::
  "TestEngine \<Rightarrow> real \<Rightarrow> real \<Rightarrow> (byte list \<Rightarrow> py_error + int) \<Rightarrow>
     py_error option \<times> TestEngine" where
  "send_data_packet e current_time now port =
     (let test_data = replicate (nat (packet_size e)) 88 in
      case create_data_packet (protocol (serial_handler e)) now test_data of
        (packet, ph) \<Rightarrow>
         (case send_packet ((serial_handler e)\<lparr>protocol := ph\<rparr>) port packet of
            (Inl err, sh) \<Rightarrow> (Some err, e\<lparr>serial_handler := sh\<rparr>)
          | (Inr sent, sh) \<Rightarrow>
             (None,
              if sent then
                e\<lparr>serial_handler := sh,
                  metrics := (metrics e)
                    \<lparr>packets_sent := packets_sent (metrics e) + 1,
                     bytes_transmitted := bytes_transmitted (metrics e)
                       + int (length test_data)\<rparr>,
                  pending_acks :=
                    AList.update (sequence_id packet) current_time (pending_acks e),
                  expected_sequences := expected_sequences e @ [sequence_id packet]\<rparr>
              else e\<lparr>serial_handler := sh\<rparr>)))"

text \<open>
  What changes the pending-ack table while a test runs: the transmitter loop sends a
  data packet or sweeps the table with the default timeout, and the handler of received
  packets hands an acknowledgement to \<^verbatim>\<open>_handle_ack_packet_transmitter\<close>. A run is a
  sequence of these events, each with the clock readings and the port of its own.
\<close>

datatype transmitter_event =
    SendData real real "byte list \<Rightarrow> py_error + int"
  | AckReceived Packet real
  | Sweep real

fun transmitter_step :: "TestEngine \<Rightarrow> transmitter_event \<Rightarrow> TestEngine" where
  "transmitter_step e (SendData current_time now port) =
     snd (send_data_packet e current_time now port)"
| "transmitter_step e (AckReceived packet current_time) =
     handle_ack_packet_transmitter e packet current_time"
| "transmitter_step e (Sweep current_time) =
     check_ack_timeouts e current_time DEFAULT_ACK_TIMEOUT"

definition transmitter_run :: "TestEngine \<Rightarrow> transmitter_event list \<Rightarrow> TestEngine" where
  "transmitter_run e evs = foldl transmitter_step e evs"

text \<open>
  The responder fed the packets \<open>ps\<close> in order, each with the clock readings and the
  port of its own call; an exception raised while acknowledging one packet does not
  keep the next from being handled.
\<close>

fun receive_packets ::
  "TestEngine \<Rightarrow> (Packet \<times> real \<times> real \<times> (byte list \<Rightarrow> py_error + int)) list \<Rightarrow> TestEngine" where
  "receive_packets e [] = e"
| "receive_packets e ((packet, current_time, now, port) # rest) =
     receive_packets (snd (handle_data_packet_receiver e packet current_time now port)) rest"

section \<open>Notions used in the statements\<close>

text \<open>
  A packet is in wire range when each of its fields fits the field of the frame that
  carries it: 16 bits for the sequence id, 32 bits for the timestamp in milliseconds and
  for the payload length.
\<close>

definition in_wire_range :: "Packet \<Rightarrow> bool" where
  "in_wire_range p \<longleftrightarrow>
     0 \<le> sequence_id p \<and> sequence_id p < 65536 \<and>
     0 \<le> py_int (timestamp p * 1000) \<and> py_int (timestamp p * 1000) < 4294967296 \<and>
     payload_size p < 4294967296"

text \<open>The twelve bytes before the payload, and the four after it, written out.\<close>

definition wire_header :: "Packet \<Rightarrow> byte list" where
  "wire_header p =
     (let s = sequence_id p; t = py_int (timestamp p * 1000); n = payload_size p in
      [word_of_int MAGIC_BYTE, word_of_int (PacketType_value (packet_type p)),
       word_of_int (s div 256), word_of_int s,
       word_of_int (t div 16777216), word_of_int (t div 65536), word_of_int (t div 256),
       word_of_int t,
       word_of_int (n div 16777216), word_of_int (n div 65536), word_of_int (n div 256),
       word_of_int n])"

definition wire_checksum :: "byte list \<Rightarrow> byte list" where
  "wire_checksum d =
     (let c = crc32 d in
      [word_of_int (c div 16777216), word_of_int (c div 65536), word_of_int (c div 256),
       word_of_int c])"

definition wire_frame :: "Packet \<Rightarrow> byte list" where
  "wire_frame p = wire_header p @ payload p @ wire_checksum (wire_header p @ payload p)"

text \<open>What a packet has become once it has crossed the wire: the timestamp keeps its
  whole milliseconds only.\<close>

definition on_wire :: "Packet \<Rightarrow> Packet" where
  "on_wire p = p\<lparr>timestamp := real_of_int (py_int (timestamp p * 1000)) / 1000\<rparr>"

text \<open>A handler as \<^verbatim>\<open>__init__\<close> leaves it, and the handler after it has created the
  packets asked for in \<open>reqs\<close> (clock reading, type and payload of each).\<close>

definition new_ProtocolHandler :: ProtocolHandler where
  "new_ProtocolHandler = \<lparr>sequence_counter = 0\<rparr>"

definition created_after ::
  "ProtocolHandler \<Rightarrow> (real \<times> PacketType \<times> byte list) list \<Rightarrow> ProtocolHandler" where
  "created_after h reqs = foldl (\<lambda>h (now, ty, pl). snd (create_packet h now ty pl)) h reqs"

text \<open>The five ways in which a buffer fails to decode, in the order of the checks.\<close>

definition declared_payload_end :: "byte list \<Rightarrow> nat" where
  "declared_payload_end data = HEADER_SIZE + nat (be_int (slice data HEADER_FORMAT_SIZE HEADER_SIZE))"

definition too_short :: "byte list \<Rightarrow> bool" where
  "too_short data \<longleftrightarrow> length data < HEADER_SIZE + FOOTER_SIZE"

definition bad_magic :: "byte list \<Rightarrow> bool" where
  "bad_magic data \<longleftrightarrow> be_int (take 1 data) \<noteq> MAGIC_BYTE"

definition truncated :: "byte list \<Rightarrow> bool" where
  "truncated data \<longleftrightarrow> length data < declared_payload_end data + FOOTER_SIZE"

definition bad_checksum :: "byte list \<Rightarrow> bool" where
  "bad_checksum data \<longleftrightarrow>
     be_int (slice data (declared_payload_end data) (declared_payload_end data + FOOTER_SIZE))
       \<noteq> crc32 (take (declared_payload_end data) data)"

definition unknown_type :: "byte list \<Rightarrow> bool" where
  "unknown_type data \<longleftrightarrow> be_int (slice data 1 2) \<notin> {1, 2, 3}"

text \<open>The serial handler and the engine as their \<^verbatim>\<open>__init__\<close> methods leave them.\<close>

definition new_SerialHandler :: SerialHandler where
  "new_SerialHandler =
     \<lparr>protocol = new_ProtocolHandler, is_connected = False, has_connection = False,
      bytes_sent = 0, bytes_received = 0, sh_packets_sent = 0, sh_packets_received = 0\<rparr>"

definition new_TestEngine :: "SerialHandler \<Rightarrow> TestEngine" where
  "new_TestEngine sh =
     \<lparr>serial_handler = sh, mode = TRANSMITTER, packet_size = 64, transmission_rate = 10,
      test_duration = 60, heartbeat_interval = 5, is_running = False, is_paused = False,
      stop_event = False, pause_event = False, test_thread = False, metrics = new_metrics,
      pending_acks = [], expected_sequences = [], received_sequences = {},
      last_sequence = - 1, emitted = []\<rparr>"

text \<open>
  An engine whose test has been started on a connected handler, and the same engine
  paused: the states RUNNING and PAUSED.
\<close>

definition running_engine :: TestEngine where
  "running_engine =
     snd (start_test (new_TestEngine (new_SerialHandler\<lparr>is_connected := True,
       has_connection := True\<rparr>)))"

definition paused_engine :: TestEngine where
  "paused_engine = pause_test running_engine"

text \<open>
  A data packet with sequence id \<open>s\<close> handed to the responder, the clock reading 1
  and the port accepting every write.
\<close>

definition data_delivery ::
  "int \<Rightarrow> Packet \<times> real \<times> real \<times> (byte list \<Rightarrow> py_error + int)" where
  "data_delivery s =
     (\<lparr>packet_type = DATA, sequence_id = s, timestamp = 0, payload = []\<rparr>, 1, 1,
      \<lambda>data. Inr (int (length data)))"

text \<open>
  An engine on a connected handler, and a port that accepts every write.
\<close>

definition connected_engine :: TestEngine where
  "connected_engine =
     new_TestEngine (new_SerialHandler\<lparr>is_connected := True, has_connection := True\<rparr>)"

definition accepting_port :: "byte list \<Rightarrow> py_error + int" where
  "accepting_port data = Inr (int (length data))"

text \<open>
  What holds of the pending-ack table and the log throughout a transmitter's run: the
  keys of the table are distinct, were issued by the handler's counter and have no
  timeout entry in the log; the log holds timeout entries only, of ids the counter has
  issued, none twice; and \<^verbatim>\<open>packets_lost\<close> is the number of its entries.
\<close>

definition pending_inv :: "TestEngine \<Rightarrow> bool" where
  "pending_inv e \<longleftrightarrow>
     distinct (map fst (pending_acks e)) \<and>
     (\<forall>k\<in>fst ` set (pending_acks e).
        k < sequence_counter (protocol (serial_handler e)) \<and>
        timeout_message k \<notin> set (errors (metrics e))) \<and>
     distinct (errors (metrics e)) \<and>
     set (errors (metrics e)) \<subseteq>
       timeout_message ` {..< sequence_counter (protocol (serial_handler e))} \<and>
     packets_lost (metrics e) = int (length (errors (metrics e)))"

text \<open>
  The sequence ids that a responder whose tracker stands at \<open>l\<close> finds missing while
  it receives packets with the sequence ids \<open>ss\<close>, in the order in which it finds them.
\<close>

fun gap_ids :: "int \<Rightarrow> int list \<Rightarrow> int list" where
  "gap_ids l [] = []"
| "gap_ids l (s # ss) = [l + 1..s - 1] @ gap_ids (max l s) ss"

section \<open>The codec: basic facts\<close>

lemma uint_byte_of_int: "uint (word_of_int x :: byte) = x mod 256"
  by (simp add: uint_word_of_int take_bit_eq_mod)

lemma be_int_B: "0 \<le> x \<Longrightarrow> x < 256 \<Longrightarrow> be_int [word_of_int x] = x"
  by (simp add: be_int_def uint_byte_of_int)

lemma be_int_magic: "be_int [170] = 170"
  by (simp add: be_int_def)

lemma be_int_H:
  "0 \<le> x \<Longrightarrow> x < 65536 \<Longrightarrow> be_int [word_of_int (x div 256), word_of_int x] = x"
  by (simp add: be_int_def uint_byte_of_int)

lemma be_int_I:
  assumes "0 \<le> x" "x < 4294967296"
  shows "be_int [word_of_int (x div 16777216), word_of_int (x div 65536),
                 word_of_int (x div 256), word_of_int x] = x"
proof -
  have d2: "x div 65536 = x div 256 div 256"
    by (simp add: zdiv_zmult2_eq [symmetric])
  have d3: "x div 16777216 = x div 256 div 256 div 256"
    by (simp add: zdiv_zmult2_eq [symmetric])
  have small: "x div 256 div 256 div 256 < 256"
    using assms unfolding d3 [symmetric] by simp
  have nonneg: "0 \<le> x div 256 div 256 div 256"
    using assms unfolding d3 [symmetric] by simp
  have m: "\<And>a::int. a mod 256 = a - 256 * (a div 256)"
    by (simp add: minus_mult_div_eq_mod)
  show ?thesis
    using small nonneg by (simp add: be_int_def uint_byte_of_int d2 d3 m)
qed

lemma crc32_range: "0 \<le> crc32 d \<and> crc32 d < 4294967296"
proof -
  have "uint (crc32_update 0xFFFFFFFF d XOR 0xFFFFFFFF) < 2 ^ LENGTH(32)"
    by (rule uint_lt2p)
  then show ?thesis by (simp add: crc32_def)
qed

lemma PacketType_value_range: "0 \<le> PacketType_value t \<and> PacketType_value t < 256"
  by (cases t) simp_all

lemma PacketType_of_value: "PacketType_of (PacketType_value t) = Inr t"
  by (cases t) (simp_all add: PacketType_of_def)

lemma payload_size_nonneg: "0 \<le> payload_size p"
  by (simp add: payload_size_def)

text \<open>\<^verbatim>\<open>serialize_packet\<close> in closed form: the frame, or \<^verbatim>\<open>struct.error\<close>.\<close>

lemma serialize_packet_eq:
  "serialize_packet p = (if in_wire_range p then Inr (wire_frame p) else Inl StructError)"
  using crc32_range [of "wire_header p @ payload p"] PacketType_value_range [of "packet_type p"]
    payload_size_nonneg [of p]
  by (auto simp: serialize_packet_def in_wire_range_def pack_BBHI_def pack_B_def pack_H_def
      pack_I_def MAGIC_BYTE_def wire_header_def wire_checksum_def wire_frame_def Let_def)

lemma length_wire_header: "length (wire_header p) = 12"
  by (simp add: wire_header_def Let_def)

lemma length_wire_checksum: "length (wire_checksum d) = 4"
  by (simp add: wire_checksum_def Let_def)

lemma length_wire_frame: "length (wire_frame p) = 16 + length (payload p)"
  by (simp add: wire_frame_def length_wire_header length_wire_checksum)

lemma be_int_wire_checksum: "be_int (wire_checksum d) = crc32 d"
  using crc32_range [of d] by (simp add: wire_checksum_def Let_def be_int_I)

lemma unpack_wire_header:
  assumes "in_wire_range p"
  shows "unpack_BBHI (take 8 (wire_header p)) =
           Inr (MAGIC_BYTE, PacketType_value (packet_type p), sequence_id p,
                py_int (timestamp p * 1000))"
    and "unpack_I (drop 8 (wire_header p)) = Inr (payload_size p)"
  using assms PacketType_value_range [of "packet_type p"] payload_size_nonneg [of p]
  by (simp_all add: unpack_BBHI_def unpack_I_def wire_header_def Let_def in_wire_range_def
      be_int_B be_int_H be_int_I be_int_magic MAGIC_BYTE_def)

lemma deserialize_wire_frame:
  assumes "in_wire_range p"
  shows "deserialize_packet (wire_frame p) = Inr (Some (on_wire p))"
  using unpack_wire_header [OF assms]
  by (simp add: deserialize_packet_def deserialize_try_def HEADER_SIZE_def HEADER_FORMAT_SIZE_def
      FOOTER_SIZE_def slice_def length_wire_header length_wire_checksum Let_def wire_frame_def
      payload_size_def be_int_wire_checksum unpack_I_def PacketType_of_value on_wire_def)

text \<open>The round trip, for every packet that \<^verbatim>\<open>serialize_packet\<close> accepts.\<close>

lemma roundtrip_in_range:
  "serialize_packet p = Inr f \<Longrightarrow> deserialize_packet f = Inr (Some (on_wire p))"
  by (auto simp: serialize_packet_eq deserialize_wire_frame split: if_splits)

lemma crc32_byte_unfold:
  "crc32_byte c b =
     crc32_step (crc32_step (crc32_step (crc32_step (crc32_step (crc32_step (crc32_step
       (crc32_step (c XOR ucast b))))))))"
  by (simp add: crc32_byte_def eval_nat_numeral)

lemma crc32_empty_header: "crc32 [170, 1, 0, 0, 0, 0, 0, 0, 0, 0, 0, 0] = 681199062"
  by (simp add: crc32_def crc32_update_def crc32_byte_unfold crc32_step_def)

lemma serialize_empty_packet:
  "serialize_packet \<lparr>packet_type = DATA, sequence_id = 0, timestamp = 0, payload = []\<rparr> =
     Inr [170, 1, 0, 0, 0, 0, 0, 0, 0, 0, 0, 0, 40, 154, 69, 214]"
  by (simp add: serialize_packet_eq in_wire_range_def py_int_def payload_size_def wire_frame_def
      wire_header_def wire_checksum_def MAGIC_BYTE_def crc32_empty_header)

section \<open>Size of an encoded frame\<close>

text \<open>
  Claim C6 as stated: the frame of a packet with a payload of \<open>N\<close> bytes has
  \<open>12 + 4 + N + 4\<close> bytes. It fails: the packet with an empty payload is encoded in
  16 bytes, not 20, since the 12 bytes of \<^verbatim>\<open>HEADER_SIZE\<close> already hold the 4-byte
  payload length.
\<close>

theorem frame_length_counterexample:
  "serialize_packet \<lparr>packet_type = DATA, sequence_id = 0, timestamp = 0, payload = []\<rparr> =
     Inr [170, 1, 0, 0, 0, 0, 0, 0, 0, 0, 0, 0, 40, 154, 69, 214] \<and>
   length [170 :: byte, 1, 0, 0, 0, 0, 0, 0, 0, 0, 0, 0, 40, 154, 69, 214] \<noteq>
     12 + 4 + length (payload \<lparr>packet_type = DATA, sequence_id = 0, timestamp = 0, payload = []\<rparr>)
       + 4"
  by (simp add: serialize_empty_packet)

text \<open>
  Claim C6, amended: every frame that \<^verbatim>\<open>serialize_packet\<close> returns for a packet with a
  payload of \<open>N\<close> bytes has \<open>HEADER_SIZE + N + FOOTER_SIZE = 12 + N + 4\<close> bytes: the
  12-byte header region, which includes the 4-byte payload length, the payload, and the
  4-byte checksum.
\<close>

theorem frame_length:
  "serialize_packet p = Inr f \<Longrightarrow>
     length f = HEADER_SIZE + length (payload p) + FOOTER_SIZE \<and>
     length f = 12 + length (payload p) + 4"
  by (auto simp: serialize_packet_eq length_wire_frame HEADER_SIZE_def HEADER_FORMAT_SIZE_def
      FOOTER_SIZE_def split: if_splits)

theorem frame_length_witness:
  "length [170 :: byte, 1, 0, 0, 0, 0, 0, 0, 0, 0, 0, 0, 40, 154, 69, 214] =
     12 + length (payload \<lparr>packet_type = DATA, sequence_id = 0, timestamp = 0, payload = []\<rparr>) + 4"
  using frame_length [OF serialize_empty_packet] by simp

section \<open>Decoding never raises\<close>

lemma unpack_header_prefix:
  assumes "8 \<le> length data"
  shows "unpack_BBHI (take HEADER_FORMAT_SIZE data) =
     Inr (be_int (take 1 data), be_int (slice data 1 2), be_int (slice data 2 4),
          be_int (slice data 4 8))"
  using assms
  by (simp add: unpack_BBHI_def slice_def HEADER_FORMAT_SIZE_def min_def drop_take)

lemma unpack_I_slice:
  "a + 4 \<le> length data \<Longrightarrow> unpack_I (slice data a (a + 4)) = Inr (be_int (slice data a (a + 4)))"
  by (simp add: unpack_I_def slice_def)

lemma PacketType_of_cases:
  "PacketType_of v = (if v \<in> {1, 2, 3} then Inr (if v = 1 then DATA else if v = 2 then ACK else HEARTBEAT) else Inl ValueError)"
  by (simp add: PacketType_of_def)

lemma deserialize_try_eq:
  assumes "\<not> too_short data"
  shows "deserialize_try data =
     (if bad_magic data \<or> truncated data \<or> bad_checksum data then Inr None
      else if unknown_type data then Inl ValueError
      else Inr (Some \<lparr>packet_type = (if be_int (slice data 1 2) = 1 then DATA
                                      else if be_int (slice data 1 2) = 2 then ACK else HEARTBEAT),
                       sequence_id = be_int (slice data 2 4),
                       timestamp = real_of_int (be_int (slice data 4 8)) / 1000,
                       payload = slice data HEADER_SIZE (declared_payload_end data)\<rparr>))"
proof -
  from assms have len: "16 \<le> length data"
    by (simp add: too_short_def HEADER_SIZE_def HEADER_FORMAT_SIZE_def FOOTER_SIZE_def)
  have h: "unpack_BBHI (take HEADER_FORMAT_SIZE data) =
     Inr (be_int (take 1 data), be_int (slice data 1 2), be_int (slice data 2 4),
          be_int (slice data 4 8))"
    using len by (simp add: unpack_header_prefix)
  have u1: "unpack_I (slice data HEADER_FORMAT_SIZE HEADER_SIZE) =
     Inr (be_int (slice data HEADER_FORMAT_SIZE HEADER_SIZE))"
    using len unpack_I_slice [of 8 data] by (simp add: HEADER_SIZE_def HEADER_FORMAT_SIZE_def)
  have u2: "\<not> truncated data \<Longrightarrow>
     unpack_I (slice data (declared_payload_end data) (declared_payload_end data + FOOTER_SIZE)) =
       Inr (be_int (slice data (declared_payload_end data) (declared_payload_end data + FOOTER_SIZE)))"
    using unpack_I_slice [of "declared_payload_end data" data]
    by (simp add: truncated_def FOOTER_SIZE_def)
  show ?thesis
  proof (cases "bad_magic data")
    case True
    then show ?thesis by (simp add: deserialize_try_def h bad_magic_def)
  next
    case nm: False
    show ?thesis
    proof (cases "truncated data")
      case True
      then show ?thesis
        using nm by (simp add: deserialize_try_def h u1 bad_magic_def truncated_def
            declared_payload_end_def Let_def)
    next
      case nt: False
      show ?thesis
      proof (cases "bad_checksum data")
        case True
        then show ?thesis
          using nm nt u2 [OF nt]
          by (simp add: deserialize_try_def h u1 bad_magic_def truncated_def bad_checksum_def
            declared_payload_end_def Let_def)
      next
        case False
        then show ?thesis
          using nm nt u2 [OF nt]
          by (simp add: deserialize_try_def h u1 bad_magic_def truncated_def bad_checksum_def
            declared_payload_end_def Let_def unknown_type_def PacketType_of_cases)
      qed
    qed
  qed
qed

lemma deserialize_packet_eq:
  "deserialize_packet data =
     (if too_short data \<or> bad_magic data \<or> truncated data \<or> bad_checksum data \<or> unknown_type data
      then Inr None
      else Inr (Some \<lparr>packet_type = (if be_int (slice data 1 2) = 1 then DATA
                                      else if be_int (slice data 1 2) = 2 then ACK else HEARTBEAT),
                       sequence_id = be_int (slice data 2 4),
                       timestamp = real_of_int (be_int (slice data 4 8)) / 1000,
                       payload = slice data HEADER_SIZE (declared_payload_end data)\<rparr>))"
proof (cases "too_short data")
  case True
  then show ?thesis by (simp add: deserialize_packet_def too_short_def)
next
  case False
  then have "\<not> length data < HEADER_SIZE + FOOTER_SIZE" by (simp add: too_short_def)
  then show ?thesis
    using False by (simp add: deserialize_packet_def deserialize_try_eq [OF False])
qed

text \<open>
  Claim C2: \<^verbatim>\<open>deserialize_packet\<close> never raises, whatever the buffer; it returns
  \<^verbatim>\<open>None\<close> exactly when the buffer is shorter than the minimum frame, or the magic byte
  is wrong, or the declared payload length makes the frame longer than the buffer, or the
  checksum does not match, or the type byte is none of 1, 2 and 3; and the handler it is
  called on is left as it was, whether decoding fails or not.
\<close>

theorem deserialize_packet_none_iff:
  "(\<exists>r. deserialize_packet data = Inr r) \<and>
   (deserialize_packet data = Inr None \<longleftrightarrow>
      too_short data \<or> bad_magic data \<or> truncated data \<or> bad_checksum data \<or> unknown_type data) \<and>
   deserialize_packet_on h data = (deserialize_packet data, h)"
  by (simp add: deserialize_packet_eq deserialize_packet_on_def)

theorem deserialize_packet_none_iff_witness:
  "deserialize_packet [0, 0, 0, 0, 0, 0, 0, 0, 0, 0, 0, 0, 0, 0, 0, 0] = Inr None \<and>
   \<not> too_short [0, 0, 0, 0, 0, 0, 0, 0, 0, 0, 0, 0, 0, 0, 0, 0] \<and>
   bad_magic [0, 0, 0, 0, 0, 0, 0, 0, 0, 0, 0, 0, 0, 0, 0, 0] \<and>
   deserialize_packet_on new_ProtocolHandler [0, 0, 0, 0, 0, 0, 0, 0, 0, 0, 0, 0, 0, 0, 0, 0] =
     (Inr None, new_ProtocolHandler)"
  using deserialize_packet_none_iff
    [of "[0, 0, 0, 0, 0, 0, 0, 0, 0, 0, 0, 0, 0, 0, 0, 0]" new_ProtocolHandler]
  by (simp add: too_short_def bad_magic_def be_int_def MAGIC_BYTE_def HEADER_SIZE_def
      HEADER_FORMAT_SIZE_def FOOTER_SIZE_def)

section \<open>Encoding is partial\<close>

lemma py_int_ge: "4294967296 \<le> x \<Longrightarrow> 4294967296 \<le> py_int x"
  by (simp add: py_int_def le_floor_iff)

lemma sequence_counter_created_after:
  "sequence_counter (created_after h reqs) = sequence_counter h + int (length reqs)"
  unfolding created_after_def
  by (induction reqs arbitrary: h) (auto simp: create_packet_def)

lemma send_packet_raises:
  "is_connected sh \<Longrightarrow> has_connection sh \<Longrightarrow> serialize_packet p = Inl StructError \<Longrightarrow>
   send_packet sh port p = (Inl StructError, sh)"
  by (simp add: send_packet_def send_try_def)

text \<open>
  Claim C10: \<^verbatim>\<open>serialize_packet\<close> raises \<^verbatim>\<open>struct.error\<close> whenever the timestamp in
  milliseconds is outside \<open>[0, 2^32)\<close> or the sequence id is outside \<open>[0, 2^16)\<close>; so
  it does for every packet that \<^verbatim>\<open>create_packet\<close> stamps with a clock reading of
  \<open>2^32\<close> milliseconds or more, and for the packet created after 65536 others by one
  handler; and \<^verbatim>\<open>send_packet\<close> on an open connection lets the exception through to
  its caller, with the handler unchanged.
\<close>

theorem serialize_packet_raises:
  "(py_int (timestamp p * 1000) < 0 \<or> 4294967296 \<le> py_int (timestamp p * 1000) \<or>
    sequence_id p < 0 \<or> 65536 \<le> sequence_id p \<longrightarrow>
      serialize_packet p = Inl StructError) \<and>
   (4294967296 \<le> now * 1000 \<longrightarrow>
      serialize_packet (fst (create_packet h now ty pl)) = Inl StructError) \<and>
   (65536 \<le> length reqs \<longrightarrow>
      serialize_packet (fst (create_packet (created_after new_ProtocolHandler reqs) now ty pl)) =
        Inl StructError) \<and>
   (is_connected sh \<and> has_connection sh \<and> serialize_packet p = Inl StructError \<longrightarrow>
      send_packet sh port p = (Inl StructError, sh))"
proof (intro conjI impI)
  assume "py_int (timestamp p * 1000) < 0 \<or> 4294967296 \<le> py_int (timestamp p * 1000) \<or>
    sequence_id p < 0 \<or> 65536 \<le> sequence_id p"
  then have "\<not> in_wire_range p" by (auto simp: in_wire_range_def)
  then show "serialize_packet p = Inl StructError" by (simp add: serialize_packet_eq)
next
  assume "4294967296 \<le> now * 1000"
  then have "4294967296 \<le> py_int (now * 1000)" by (rule py_int_ge)
  then have "\<not> in_wire_range (fst (create_packet h now ty pl))"
    by (simp add: in_wire_range_def create_packet_def)
  then show "serialize_packet (fst (create_packet h now ty pl)) = Inl StructError"
    by (simp add: serialize_packet_eq)
next
  assume "65536 \<le> length reqs"
  then have "65536 \<le> sequence_counter (created_after new_ProtocolHandler reqs)"
    by (simp add: sequence_counter_created_after new_ProtocolHandler_def)
  then have "\<not> in_wire_range (fst (create_packet (created_after new_ProtocolHandler reqs) now ty pl))"
    by (simp add: in_wire_range_def create_packet_def)
  then show "serialize_packet (fst (create_packet (created_after new_ProtocolHandler reqs) now ty pl)) =
      Inl StructError"
    by (simp add: serialize_packet_eq)
next
  assume "is_connected sh \<and> has_connection sh \<and> serialize_packet p = Inl StructError"
  then show "send_packet sh port p = (Inl StructError, sh)"
    by (simp add: send_packet_raises)
qed

theorem serialize_packet_raises_witness:
  "serialize_packet \<lparr>packet_type = DATA, sequence_id = 0, timestamp = 1700000000, payload = []\<rparr> =
     Inl StructError \<and>
   serialize_packet (fst (create_packet new_ProtocolHandler 1700000000 DATA [])) = Inl StructError \<and>
   serialize_packet
     (fst (create_packet (created_after new_ProtocolHandler (replicate 65536 (0, DATA, []))) 0 DATA [])) =
     Inl StructError \<and>
   send_packet
     \<lparr>protocol = new_ProtocolHandler, is_connected = True, has_connection = True, bytes_sent = 0,
      bytes_received = 0, sh_packets_sent = 0, sh_packets_received = 0\<rparr>
     (\<lambda>data. Inr (int (length data)))
     \<lparr>packet_type = DATA, sequence_id = 0, timestamp = 1700000000, payload = []\<rparr> =
     (Inl StructError,
      \<lparr>protocol = new_ProtocolHandler, is_connected = True, has_connection = True, bytes_sent = 0,
       bytes_received = 0, sh_packets_sent = 0, sh_packets_received = 0\<rparr>)"
  using serialize_packet_raises
    [of "\<lparr>packet_type = DATA, sequence_id = 0, timestamp = 1700000000, payload = []\<rparr>"
        1700000000 new_ProtocolHandler DATA "[]" "replicate 65536 (0, DATA, [])"
        "\<lparr>protocol = new_ProtocolHandler, is_connected = True, has_connection = True,
          bytes_sent = 0, bytes_received = 0, sh_packets_sent = 0, sh_packets_received = 0\<rparr>"
        "\<lambda>data. Inr (int (length data))"]
    serialize_packet_raises
    [of "\<lparr>packet_type = DATA, sequence_id = 0, timestamp = 1700000000, payload = []\<rparr>"
        0 new_ProtocolHandler DATA "[]" "replicate 65536 (0, DATA, [])"]
  by (simp add: py_int_def)

section \<open>The round trip\<close>

text \<open>
  Claim C1 says that every packet built from a type and a payload comes back from
  \<^verbatim>\<open>deserialize_packet (serialize_packet p)\<close>, the timestamp cut to the millisecond.
  \<open>roundtrip_in_range\<close> above proves this for the packets that \<^verbatim>\<open>serialize_packet\<close>
  accepts. The packets that \<^verbatim>\<open>create_packet\<close> builds are not among them once the clock
  reads \<open>2^32\<close> milliseconds or more: the data packet that a fresh handler creates at
  clock reading 1700000000 with 64 bytes of payload, as the repository's protocol test
  does, is not encoded at all.
\<close>

theorem roundtrip_fails_for_created_packet:
  "serialize_packet (fst (create_data_packet new_ProtocolHandler 1700000000 (replicate 64 88))) =
     Inl StructError"
  by (simp add: create_data_packet_def create_packet_def serialize_packet_eq in_wire_range_def
      py_int_def)

section \<open>Integers in the error log\<close>

text \<open>Python's \<^verbatim>\<open>str\<close> gives different integers different strings.\<close>

lemma digit_char_inj: "a < 10 \<Longrightarrow> b < 10 \<Longrightarrow> digit_char a = digit_char b \<Longrightarrow> a = b"
proof -
  assume a: "a < 10" and b: "b < 10" and e: "digit_char a = digit_char b"
  from e have "(of_char (digit_char a) :: nat) = of_char (digit_char b)" by simp
  with a b show "a = b" by (simp add: digit_char_def)
qed

lemma digit_char_not_minus: "d < 10 \<Longrightarrow> digit_char d \<noteq> CHR ''-''"
proof
  assume d: "d < 10" and e: "digit_char d = CHR ''-''"
  from e have "(of_char (digit_char d) :: nat) = of_char (CHR ''-'')" by simp
  with d show False by (simp add: digit_char_def)
qed

lemma str_nat_small: "n < 10 \<Longrightarrow> str_nat n = [digit_char n]"
  by (subst str_nat.simps) simp

lemma str_nat_big: "\<not> n < 10 \<Longrightarrow> str_nat n = str_nat (n div 10) @ [digit_char (n mod 10)]"
  by (subst str_nat.simps) simp

lemma str_nat_nonempty: "str_nat n \<noteq> []"
  by (cases "n < 10") (simp_all add: str_nat_small str_nat_big)

lemma str_nat_no_minus: "CHR ''-'' \<notin> set (str_nat n)"
proof (induction n rule: str_nat.induct)
  case (1 n)
  show ?case
  proof (cases "n < 10")
    case True
    then show ?thesis using digit_char_not_minus [of n] by (auto simp: str_nat_small)
  next
    case False
    with 1 show ?thesis using digit_char_not_minus [of "n mod 10"] by (auto simp: str_nat_big)
  qed
qed

lemma str_nat_inj: "str_nat m = str_nat n \<Longrightarrow> m = n"
proof (induction m arbitrary: n rule: str_nat.induct)
  case (1 m)
  show ?case
  proof (cases "m < 10")
    case m: True
    show ?thesis
    proof (cases "n < 10")
      case True
      with m 1(2) show ?thesis by (simp add: str_nat_small digit_char_inj)
    next
      case False
      with m 1(2) show ?thesis
        by (simp add: str_nat_small str_nat_big str_nat_nonempty [THEN not_sym])
    qed
  next
    case m: False
    show ?thesis
    proof (cases "n < 10")
      case True
      with m 1(2) show ?thesis by (simp add: str_nat_small str_nat_big str_nat_nonempty)
    next
      case False
      with m 1(2) have e: "str_nat (m div 10) = str_nat (n div 10) \<and> digit_char (m mod 10) = digit_char (n mod 10)"
        by (simp add: str_nat_big)
      then have "m div 10 = n div 10" using 1(1) [OF m] by simp
      moreover from e have "m mod 10 = n mod 10" by (simp add: digit_char_inj)
      ultimately show ?thesis by (metis div_mult_mod_eq)
    qed
  qed
qed

lemma str_int_inj: "str_int i = str_int j \<Longrightarrow> i = j"
proof -
  assume e: "str_int i = str_int j"
  have nm: "\<And>n. hd (str_nat n) \<noteq> CHR ''-''"
    using str_nat_no_minus str_nat_nonempty by (metis hd_in_set)
  show "i = j"
  proof (cases "i < 0")
    case i: True
    show ?thesis
    proof (cases "j < 0")
      case True
      with i e have "nat (- i) = nat (- j)" by (simp add: str_int_def str_nat_inj)
      with i True show ?thesis by simp
    next
      case False
      with i e have "CHR ''-'' # str_nat (nat (- i)) = str_nat (nat j)" by (simp add: str_int_def)
      then have "hd (str_nat (nat j)) = CHR ''-''" by (metis list.sel(1))
      with nm show ?thesis by simp
    qed
  next
    case i: False
    show ?thesis
    proof (cases "j < 0")
      case True
      with i e have "str_nat (nat i) = CHR ''-'' # str_nat (nat (- j))" by (simp add: str_int_def)
      then have "hd (str_nat (nat i)) = CHR ''-''" by (metis list.sel(1))
      with nm show ?thesis by simp
    next
      case False
      with i e have "nat i = nat j" by (simp add: str_int_def str_nat_inj)
      with i False show ?thesis by simp
    qed
  qed
qed

lemma str_int_2: "str_int 2 = ''2''"
  by (simp add: str_int_def str_nat_small digit_char_def char_of_def bit_0)

section \<open>Configuring and starting while a test runs\<close>

text \<open>
  Claim C8: while a test is running, paused or not (\<^verbatim>\<open>is_running\<close> is set in both
  states, \<^verbatim>\<open>pause_test\<close> leaves it set), \<^verbatim>\<open>configure_test\<close> and \<^verbatim>\<open>start_test\<close>
  each return \<^verbatim>\<open>False\<close> and leave the whole engine as it was: mode, packet size,
  rate and duration, and the metrics, the pending-ack table and the receiver's tracker.
\<close>

theorem configure_start_rejected:
  "is_running e \<Longrightarrow>
     configure_test e m psize rate duration = (False, e) \<and> start_test e = (False, e)"
  by (simp add: configure_test_def start_test_def)

theorem configure_start_rejected_witness:
  "is_running running_engine \<and> \<not> is_paused running_engine \<and>
   configure_test running_engine RECEIVER 128 20 30 = (False, running_engine) \<and>
   start_test running_engine = (False, running_engine) \<and>
   is_running paused_engine \<and> is_paused paused_engine \<and>
   configure_test paused_engine RECEIVER 128 20 30 = (False, paused_engine) \<and>
   start_test paused_engine = (False, paused_engine)"
  using configure_start_rejected [of running_engine RECEIVER 128 20 30]
    configure_start_rejected [of paused_engine RECEIVER 128 20 30]
  by (simp add: paused_engine_def running_engine_def start_test_def new_TestEngine_def
      new_SerialHandler_def pause_test_def reset_metrics_def Let_def)

section \<open>The responder's tracker\<close>

lemma handle_data_tracker:
  "last_sequence (snd (handle_data_packet_receiver e p ct now port)) = last_sequence (track_sequence e p)"
  "packets_lost (metrics (snd (handle_data_packet_receiver e p ct now port))) = packets_lost (metrics (track_sequence e p))"
  "errors (metrics (snd (handle_data_packet_receiver e p ct now port))) = errors (metrics (track_sequence e p))"
  by (simp_all add: handle_data_packet_receiver_def record_latency_def Let_def
      split: sum.splits prod.splits)

lemma track_sequence_tracker:
  "last_sequence (track_sequence e p) = max (last_sequence e) (sequence_id p)"
  "packets_lost (metrics (track_sequence e p)) = packets_lost (metrics e) + int (length [last_sequence e + 1..sequence_id p - 1])"
  "errors (metrics (track_sequence e p)) = errors (metrics e) @ missing_errors (last_sequence e) (sequence_id p)"
  by (simp_all add: track_sequence_def Let_def missing_errors_def)

lemma receive_packets_tracker:
  "last_sequence (receive_packets e ps) = foldl max (last_sequence e) (map (sequence_id \<circ> fst) ps) \<and>
   packets_lost (metrics (receive_packets e ps)) =
     packets_lost (metrics e) + int (length (gap_ids (last_sequence e) (map (sequence_id \<circ> fst) ps))) \<and>
   errors (metrics (receive_packets e ps)) =
     errors (metrics e) @
       map missing_message
         (gap_ids (last_sequence e) (map (sequence_id \<circ> fst) ps))"
proof (induction ps arbitrary: e)
  case Nil
  show ?case by simp
next
  case (Cons a ps)
  obtain p ct now port where a: "a = (p, ct, now, port)" by (cases a)
  show ?case
    unfolding a
    by (simp add: Cons handle_data_tracker track_sequence_tracker missing_errors_def)
qed

lemma foldl_max_ge: "(l :: int) \<le> foldl max l ss"
proof (induction ss arbitrary: l)
  case Nil show ?case by simp
next
  case (Cons s ss)
  have "l \<le> max l s" by simp
  also have "\<dots> \<le> foldl max (max l s) ss" by (rule Cons)
  finally show ?case by simp
qed

lemma gap_ids_gt: "x \<in> set (gap_ids l ss) \<Longrightarrow> l < x"
proof (induction ss arbitrary: l)
  case Nil then show ?case by simp
next
  case (Cons s ss)
  from Cons.prems have "x \<in> {l + 1..s - 1} \<or> x \<in> set (gap_ids (max l s) ss)" by simp
  then show ?case
  proof
    assume "x \<in> {l + 1..s - 1}" then show ?thesis by simp
  next
    assume "x \<in> set (gap_ids (max l s) ss)"
    then have "max l s < x" by (rule Cons.IH)
    then show ?thesis by simp
  qed
qed

lemma distinct_gap_ids: "distinct (gap_ids l ss)"
proof (induction ss arbitrary: l)
  case Nil show ?case by simp
next
  case (Cons s ss)
  have "set [l + 1..s - 1] \<inter> set (gap_ids (max l s) ss) = {}"
  proof (rule ccontr)
    assume "set [l + 1..s - 1] \<inter> set (gap_ids (max l s) ss) \<noteq> {}"
    then obtain x where x1: "x \<in> set [l + 1..s - 1]" and x2: "x \<in> set (gap_ids (max l s) ss)"
      by blast
    from x2 have "max l s < x" by (rule gap_ids_gt)
    with x1 show False by simp
  qed
  then show ?case by (simp add: Cons)
qed

lemma missing_message_inj: "missing_message a = missing_message b \<Longrightarrow> a = b"
  by (simp add: missing_message_def str_int_inj)

lemma distinct_missing: "distinct (map missing_message (gap_ids l ss))"
  by (auto simp: distinct_map distinct_gap_ids inj_on_def dest: missing_message_inj)

lemma missing_message_2: "missing_message 2 = ''Missing packet: seq=2''"
  by (simp add: missing_message_def str_int_2)

lemma gap_0134: "gap_ids (- 1) [0, 1, 3, 4] = [2]"
  by (simp add: upto.simps)

lemma sequence_id_data_delivery: "sequence_id (fst (data_delivery s)) = s"
  by (simp add: data_delivery_def)

lemma gap_316: "gap_ids (- 1) [3, 1, 6] = [0, 1, 2, 4, 5]"
  by (simp add: upto.simps)

text \<open>
  Claim C9: whatever packets the responder's handler is given, in whatever order,
  \<^verbatim>\<open>last_sequence\<close> after a packet is the maximum of its value before and the packet's
  sequence id, so it never decreases, after one packet or after many; the ids counted
  lost by one packet are those from \<open>last_sequence + 1\<close> up to the id before the
  packet's (this range holds every id strictly between \<open>last_sequence + 1\<close> and the
  packet's id, and \<open>last_sequence + 1\<close> itself), each once: \<^verbatim>\<open>packets_lost\<close> grows by
  their number and the log by one entry for each; and over a whole run the ids counted
  lost are those of \<open>gap_ids\<close>, whose log entries are pairwise distinct, so that no id is
  counted at two packets.
\<close>

theorem tracker_forward_gaps_once:
  "last_sequence (snd (handle_data_packet_receiver e p ct now port)) =
     max (last_sequence e) (sequence_id p) \<and>
   last_sequence e \<le> last_sequence (snd (handle_data_packet_receiver e p ct now port)) \<and>
   packets_lost (metrics (snd (handle_data_packet_receiver e p ct now port))) =
     packets_lost (metrics e) + int (length [last_sequence e + 1..sequence_id p - 1]) \<and>
   errors (metrics (snd (handle_data_packet_receiver e p ct now port))) =
     errors (metrics e) @ map missing_message [last_sequence e + 1..sequence_id p - 1] \<and>
   distinct (map missing_message [last_sequence e + 1..sequence_id p - 1]) \<and>
   last_sequence e \<le> last_sequence (receive_packets e ps) \<and>
   last_sequence (receive_packets e ps) =
     foldl max (last_sequence e) (map (sequence_id \<circ> fst) ps) \<and>
   packets_lost (metrics (receive_packets e ps)) =
     packets_lost (metrics e) +
       int (length (gap_ids (last_sequence e) (map (sequence_id \<circ> fst) ps))) \<and>
   errors (metrics (receive_packets e ps)) =
     errors (metrics e) @
       map missing_message (gap_ids (last_sequence e) (map (sequence_id \<circ> fst) ps)) \<and>
   distinct (map missing_message (gap_ids (last_sequence e) (map (sequence_id \<circ> fst) ps)))"
  using receive_packets_tracker [of e ps] distinct_missing [of "last_sequence e" "[sequence_id p]"]
  by (simp add: handle_data_tracker track_sequence_tracker missing_errors_def foldl_max_ge
      distinct_missing)

theorem tracker_forward_gaps_once_witness:
  "last_sequence (receive_packets (reset_metrics (new_TestEngine new_SerialHandler))
     [data_delivery 3, data_delivery 1, data_delivery 6]) = 6 \<and>
   packets_lost (metrics (receive_packets (reset_metrics (new_TestEngine new_SerialHandler))
     [data_delivery 3, data_delivery 1, data_delivery 6])) = 5 \<and>
   errors (metrics (receive_packets (reset_metrics (new_TestEngine new_SerialHandler))
     [data_delivery 3, data_delivery 1, data_delivery 6])) =
     map missing_message [0, 1, 2, 4, 5] \<and>
   distinct (map missing_message [0, 1, 2, 4, 5])"
  using tracker_forward_gaps_once
    [of "reset_metrics (new_TestEngine new_SerialHandler)" "fst (data_delivery 3)" 1 1
        "\<lambda>data. Inr (int (length data))"
        "[data_delivery 3, data_delivery 1, data_delivery 6]"]
  by (simp del: receive_packets.simps gap_ids.simps
      add: reset_metrics_def new_metrics_def sequence_id_data_delivery gap_316)

section \<open>Loss accounting for the ids 0, 1, 3, 4\<close>

text \<open>
  Claim C4 as stated: after the data packets 0, 1, 3, 4 the log holds two distinct
  missing-sequence entries for id 2. It fails: the loop over
  \<^verbatim>\<open>range(last_sequence + 1, sequence_id)\<close> appends one entry for each missing id, and
  the log of a freshly reset engine holds the single entry \<^verbatim>\<open>Missing packet: seq=2\<close>.
\<close>

theorem loss_accounting_0134_counterexample:
  "errors (metrics (receive_packets (reset_metrics (new_TestEngine new_SerialHandler))
      [data_delivery 0, data_delivery 1, data_delivery 3, data_delivery 4])) = [''Missing packet: seq=2''] \<and>
   length (errors (metrics (receive_packets (reset_metrics (new_TestEngine new_SerialHandler))
      [data_delivery 0, data_delivery 1, data_delivery 3, data_delivery 4]))) \<noteq> 2"
  using receive_packets_tracker
    [of "reset_metrics (new_TestEngine new_SerialHandler)"
        "[data_delivery 0, data_delivery 1, data_delivery 3, data_delivery 4]"]
  by (simp add: reset_metrics_def new_metrics_def new_TestEngine_def data_delivery_def gap_0134
      missing_message_2)

text \<open>
  Claim C4, amended: from a freshly reset tracker (\<^verbatim>\<open>last_sequence = -1\<close>, no loss
  counted, empty log), data packets with the sequence ids 0, 1, 3, 4 in that order,
  whatever else they hold, leave \<^verbatim>\<open>packets_lost = 1\<close>, exactly one error entry,
  \<^verbatim>\<open>Missing packet: seq=2\<close>, and \<^verbatim>\<open>last_sequence = 4\<close>.
\<close>

theorem loss_accounting_0134:
  "map (sequence_id \<circ> fst) ps = [0, 1, 3, 4] \<Longrightarrow>
     packets_lost (metrics (receive_packets (reset_metrics e) ps)) = 1 \<and>
     errors (metrics (receive_packets (reset_metrics e) ps)) = [''Missing packet: seq=2''] \<and>
     last_sequence (receive_packets (reset_metrics e) ps) = 4"
  using receive_packets_tracker [of "reset_metrics e" ps]
  by (simp add: reset_metrics_def new_metrics_def gap_0134 missing_message_2)

theorem loss_accounting_0134_witness:
  "packets_lost (metrics (receive_packets (reset_metrics (new_TestEngine new_SerialHandler))
      [data_delivery 0, data_delivery 1, data_delivery 3, data_delivery 4])) = 1 \<and>
   errors (metrics (receive_packets (reset_metrics (new_TestEngine new_SerialHandler))
      [data_delivery 0, data_delivery 1, data_delivery 3, data_delivery 4])) = [''Missing packet: seq=2''] \<and>
   last_sequence (receive_packets (reset_metrics (new_TestEngine new_SerialHandler))
      [data_delivery 0, data_delivery 1, data_delivery 3, data_delivery 4]) = 4"
  using loss_accounting_0134
    [of "[data_delivery 0, data_delivery 1, data_delivery 3, data_delivery 4]"
        "new_TestEngine new_SerialHandler"]
  by (simp add: data_delivery_def)

end
